theory Spec2Isabelle
  imports Main "HOL-Library.Product_Lexorder"
begin

section \<open>The store: backend/db.py\<close>

text \<open>
  The four SQLite tables of \<^verbatim>\<open>init_db\<close> are lists of rows in rowid order. A row id
  is the \<^verbatim>\<open>INTEGER PRIMARY KEY AUTOINCREMENT\<close> column; the module never deletes a
  row, so the next id is one more than the largest id in the table. The columns
  \<^verbatim>\<open>status\<close> and \<^verbatim>\<open>kind\<close> carry a \<^verbatim>\<open>CHECK (... IN ...)\<close> constraint and are
  enumerations. \<^verbatim>\<open>CURRENT_TIMESTAMP\<close> is a reading of the clock, passed to every
  writing operation as the argument \<open>now\<close>; its fixed-width text form orders as
  the number does. The limit of \<^verbatim>\<open>get_conversation\<close> is taken inside SQLite's 64-bit
  range.
  Every operation returns its result together with the store it leaves behind, so
  that a raised exception (the \<open>Inl\<close> results) still shows what was committed.
\<close>

datatype error =
    ValueError string
  | TypeError
  | IntegrityError
  | AttributeError
  | OperationalError
  | OverflowError
  | HTTPException nat string

datatype fr_status = Pending | Accepted | Rejected

datatype msg_kind = KText | KFile

record user =
  user_id :: int
  username :: string
  password_hash :: string

record session =
  token :: string
  session_user_id :: int

record friend_request =
  fr_id :: int
  from_user_id :: int
  to_user_id :: int
  status :: fr_status
  fr_created_at :: nat
  responded_at :: "nat option"

record message =
  msg_id :: int
  msg_from_user_id :: int
  msg_to_user_id :: int
  kind :: msg_kind
  msg_text :: string
  url :: "string option"
  created_at :: nat

record database =
  users :: "user list"
  sessions :: "session list"
  friend_requests :: "friend_request list"
  messages :: "message list"

definition init_db :: database where
  "init_db = \<lparr>users = [], sessions = [], friend_requests = [], messages = []\<rparr>"

definition next_id :: "int list \<Rightarrow> int" where
  "next_id ids = fold max ids 0 + 1"

subsection \<open>Users and sessions\<close>

definition get_user_by_username :: "database \<Rightarrow> string \<Rightarrow> user option" where
  "get_user_by_username db name = find (\<lambda>u. username u = name) (users db)"

definition user_by_id :: "database \<Rightarrow> int \<Rightarrow> user option" where
  "user_by_id db i = find (\<lambda>u. user_id u = i) (users db)"

text \<open>\<^verbatim>\<open>create_user\<close>: the hash is computed by hashlib and arrives as \<open>hashed\<close>; the
  \<^verbatim>\<open>UNIQUE\<close> column makes the insert fail on a taken name.\<close>

definition create_user :: "database \<Rightarrow> string \<Rightarrow> string \<Rightarrow> (error + user) \<times> database" where
  "create_user db name hashed =
     (if \<exists>u \<in> set (users db). username u = name
      then (Inl (ValueError ''Username already taken''), db)
      else
        let u = \<lparr>user_id = next_id (map user_id (users db)), username = name,
                 password_hash = hashed\<rparr>
        in (Inr u, db\<lparr>users := users db @ [u]\<rparr>))"

definition create_session :: "database \<Rightarrow> string \<Rightarrow> int \<Rightarrow> (error + string) \<times> database" where
  "create_session db tok uid =
     (if \<exists>s \<in> set (sessions db). token s = tok
      then (Inl IntegrityError, db)
      else (Inr tok, db\<lparr>sessions := sessions db @ [\<lparr>token = tok, session_user_id = uid\<rparr>]\<rparr>))"

definition get_user_by_token :: "database \<Rightarrow> string \<Rightarrow> user option" where
  "get_user_by_token db tok =
     (case find (\<lambda>s. token s = tok) (sessions db) of
        None \<Rightarrow> None
      | Some s \<Rightarrow> user_by_id db (session_user_id s))"

subsection \<open>Friend requests\<close>

record request_view =
  rv_id :: int
  rv_status :: fr_status
  rv_from_username :: string
  rv_to_username :: string

text \<open>The closing \<^verbatim>\<open>SELECT ... JOIN users ... WHERE fr.id = ?\<close> of both writers;
  \<^verbatim>\<open>dict(None)\<close> raises a TypeError when the join is empty.\<close>

definition select_request_view :: "database \<Rightarrow> int \<Rightarrow> error + request_view" where
  "select_request_view db rid =
     (case find (\<lambda>r. fr_id r = rid) (friend_requests db) of
        None \<Rightarrow> Inl TypeError
      | Some r \<Rightarrow>
          (case (user_by_id db (from_user_id r), user_by_id db (to_user_id r)) of
             (Some uf, Some ut) \<Rightarrow>
               Inr \<lparr>rv_id = fr_id r, rv_status = status r,
                    rv_from_username = username uf, rv_to_username = username ut\<rparr>
           | _ \<Rightarrow> Inl TypeError))"

definition between :: "int \<Rightarrow> int \<Rightarrow> friend_request \<Rightarrow> bool" where
  "between a b r \<longleftrightarrow>
     (from_user_id r = a \<and> to_user_id r = b) \<or> (from_user_id r = b \<and> to_user_id r = a)"

definition existing_message :: "fr_status \<Rightarrow> string" where
  "existing_message st =
     (if st = Accepted then ''You are already friends''
      else if st = Pending then ''A pending friend request already exists''
      else ''A friend request already exists'')"

text \<open>
  The row that \<^verbatim>\<open>fetchone()\<close> gives for the \<^verbatim>\<open>SELECT\<close> of either direction. SQLite
  answers the \<^verbatim>\<open>OR\<close> through the index of \<^verbatim>\<open>UNIQUE (from_user_id, to_user_id)\<close>, one
  disjunct after the other: the row in the asked direction when there is one, else
  the row in the other direction.
\<close>

definition select_between :: "database \<Rightarrow> int \<Rightarrow> int \<Rightarrow> friend_request option" where
  "select_between db a b =
     (case find (\<lambda>r. from_user_id r = a \<and> to_user_id r = b) (friend_requests db) of
        Some row \<Rightarrow> Some row
      | None \<Rightarrow> find (\<lambda>r. from_user_id r = b \<and> to_user_id r = a) (friend_requests db))"

text \<open>
  \<^verbatim>\<open>create_friend_request\<close> reads, then writes. \<open>request_check\<close> is lines 206 to 236:
  the target, the self check and the \<^verbatim>\<open>SELECT\<close>; it gives the target's id when nothing
  is raised. \<open>request_write\<close> is lines 239 to 262: the \<^verbatim>\<open>INSERT\<close> under the
  \<^verbatim>\<open>UNIQUE\<close> constraint of the ordered pair, the commit and the read-back. The
  function itself is what a call does when no other call commits between its two
  parts.
\<close>

definition request_check :: "database \<Rightarrow> int \<Rightarrow> string \<Rightarrow> error + int" where
  "request_check db from_id to_username =
     (case get_user_by_username db to_username of
        None \<Rightarrow> Inl (ValueError ''Target user does not exist'')
      | Some target \<Rightarrow>
          let to_id = user_id target in
          if to_id = from_id then Inl (ValueError ''Cannot add yourself as a friend'')
          else
            (case select_between db from_id to_id of
               Some row \<Rightarrow> Inl (ValueError (existing_message (status row)))
             | None \<Rightarrow> Inr to_id))"

definition request_write ::
  "nat \<Rightarrow> database \<Rightarrow> int \<Rightarrow> int \<Rightarrow> (error + request_view) \<times> database" where
  "request_write now db from_id to_id =
     (if \<exists>r \<in> set (friend_requests db). from_user_id r = from_id \<and> to_user_id r = to_id
      then (Inl IntegrityError, db)
      else
        let request_id = next_id (map fr_id (friend_requests db));
            r = \<lparr>fr_id = request_id, from_user_id = from_id, to_user_id = to_id,
                 status = Pending, fr_created_at = now, responded_at = None\<rparr>;
            db' = db\<lparr>friend_requests := friend_requests db @ [r]\<rparr>
        in (select_request_view db' request_id, db'))"

definition create_friend_request ::
  "nat \<Rightarrow> database \<Rightarrow> int \<Rightarrow> string \<Rightarrow> (error + request_view) \<times> database" where
  "create_friend_request now db from_id to_username =
     (case request_check db from_id to_username of
        Inl e \<Rightarrow> (Inl e, db)
      | Inr to_id \<Rightarrow> request_write now db from_id to_id)"

text \<open>
  \<^verbatim>\<open>respond_to_friend_request\<close> reads, then writes. \<open>respond_check\<close> is lines 275 to
  294: the \<^verbatim>\<open>SELECT\<close> by id and the three checks. The request id comes from the body
  of the HTTP request, and an integer outside SQLite's 64 bits makes the binding raise
  OverflowError. \<open>respond_write\<close> is lines 296 to 322: the
  \<^verbatim>\<open>UPDATE ... WHERE id = ?\<close>, which looks at no status, the commit and the read-back.
  The function itself is what a call does when no other call commits between its two
  parts.
\<close>

definition in_int64 :: "int \<Rightarrow> bool" where
  "in_int64 i \<longleftrightarrow> - (2 ^ 63) \<le> i \<and> i < 2 ^ 63"

definition respond_check :: "database \<Rightarrow> int \<Rightarrow> int \<Rightarrow> error + friend_request" where
  "respond_check db request_id to_uid =
     (if \<not> in_int64 request_id then Inl OverflowError
      else
        (case find (\<lambda>r. fr_id r = request_id) (friend_requests db) of
           None \<Rightarrow> Inl (ValueError ''Friend request not found'')
         | Some row \<Rightarrow>
             if to_user_id row \<noteq> to_uid
             then Inl (ValueError ''You are not allowed to respond to this request'')
             else if status row \<noteq> Pending
             then Inl (ValueError ''Friend request is not pending'')
             else Inr row))"

definition respond_write ::
  "nat \<Rightarrow> database \<Rightarrow> int \<Rightarrow> bool \<Rightarrow> (error + request_view) \<times> database" where
  "respond_write now db request_id accept =
     (let new_status = (if accept then Accepted else Rejected);
          db' = db\<lparr>friend_requests :=
                  map (\<lambda>r. if fr_id r = request_id
                            then r\<lparr>status := new_status, responded_at := Some now\<rparr>
                            else r)
                      (friend_requests db)\<rparr>
      in (select_request_view db' request_id, db'))"

definition respond_to_friend_request ::
  "nat \<Rightarrow> database \<Rightarrow> int \<Rightarrow> int \<Rightarrow> bool \<Rightarrow> (error + request_view) \<times> database" where
  "respond_to_friend_request now db request_id to_uid accept =
     (case respond_check db request_id to_uid of
        Inl e \<Rightarrow> (Inl e, db)
      | Inr row \<Rightarrow> respond_write now db request_id accept)"

definition are_friends :: "database \<Rightarrow> int \<Rightarrow> int \<Rightarrow> bool" where
  "are_friends db user_id1 user_id2 \<longleftrightarrow>
     find (\<lambda>r. status r = Accepted \<and>
                ((from_user_id r = user_id1 \<and> to_user_id r = user_id2) \<or>
                 (from_user_id r = user_id2 \<and> to_user_id r = user_id1)))
          (friend_requests db) \<noteq> None"

subsection \<open>Messages\<close>

record message_view =
  mv_from_username :: string
  mv_to_username :: string
  mv_kind :: msg_kind
  mv_text :: string
  mv_url :: "string option"
  mv_created_at :: nat

text \<open>The inner join of a message row with the users table on both of its ids.\<close>

definition join_users :: "database \<Rightarrow> message \<Rightarrow> message_view option" where
  "join_users db m =
     (case (user_by_id db (msg_from_user_id m), user_by_id db (msg_to_user_id m)) of
        (Some uf, Some ut) \<Rightarrow>
          Some \<lparr>mv_from_username = username uf, mv_to_username = username ut,
                mv_kind = kind m, mv_text = msg_text m, mv_url = url m,
                mv_created_at = created_at m\<rparr>
      | _ \<Rightarrow> None)"

text \<open>\<^verbatim>\<open>save_message\<close>: \<open>ok\<close> tells whether SQLite carries the insert out (a locked
  or full database raises \<^verbatim>\<open>sqlite3.OperationalError\<close>, and nothing is stored).
  \<open>new_message\<close> is the row that the \<^verbatim>\<open>INSERT\<close> writes; it is committed before the
  row is read back through the join, so when the join is empty \<^verbatim>\<open>dict(None)\<close> raises
  with the row stored. A read-back that SQLite itself fails is left out.\<close>

definition new_message ::
  "nat \<Rightarrow> database \<Rightarrow> int \<Rightarrow> int \<Rightarrow> msg_kind \<Rightarrow> string \<Rightarrow> string option \<Rightarrow> message" where
  "new_message now db from_id to_id k body locator =
     \<lparr>msg_id = next_id (map msg_id (messages db)), msg_from_user_id = from_id,
      msg_to_user_id = to_id, kind = k, msg_text = body, url = locator, created_at = now\<rparr>"

definition save_message ::
  "bool \<Rightarrow> nat \<Rightarrow> database \<Rightarrow> int \<Rightarrow> int \<Rightarrow> msg_kind \<Rightarrow> string \<Rightarrow> string option
     \<Rightarrow> (error + message_view) \<times> database" where
  "save_message ok now db from_id to_id k body locator =
     (if \<not> ok then (Inl OperationalError, db)
      else
        let m = new_message now db from_id to_id k body locator;
            db' = db\<lparr>messages := messages db @ [m]\<rparr>
        in (case join_users db' m of None \<Rightarrow> (Inl TypeError, db') | Some v \<Rightarrow> (Inr v, db')))"

text \<open>\<^verbatim>\<open>get_conversation\<close>: the rows the \<^verbatim>\<open>WHERE\<close> and the joins keep, in the order
  of \<^verbatim>\<open>ORDER BY m.created_at ASC, m.id ASC\<close>, cut by \<^verbatim>\<open>LIMIT ?\<close> (in SQLite a
  negative limit is no limit), then projected to the selected columns.\<close>

definition conversation_rows :: "database \<Rightarrow> int \<Rightarrow> int \<Rightarrow> int \<Rightarrow> message list" where
  "conversation_rows db user1_id user2_id limit =
     (let rows = filter (\<lambda>m. ((msg_from_user_id m = user1_id \<and> msg_to_user_id m = user2_id) \<or>
                               (msg_from_user_id m = user2_id \<and> msg_to_user_id m = user1_id)) \<and>
                              join_users db m \<noteq> None)
                        (messages db);
          ordered = sort_key (\<lambda>m. (created_at m, msg_id m)) rows
      in if limit < 0 then ordered else take (nat limit) ordered)"

definition get_conversation :: "database \<Rightarrow> int \<Rightarrow> int \<Rightarrow> int \<Rightarrow> message_view list" where
  "get_conversation db user1_id user2_id limit =
     List.map_filter (join_users db) (conversation_rows db user1_id user2_id limit)"


subsection \<open>The writes and the stores they lead to\<close>

text \<open>
  The endpoints that call these functions are plain \<^verbatim>\<open>def\<close>s, which the server runs in
  a thread pool, each call on a connection of its own: calls can overlap. Only the
  writes change the store, each a single committed statement, so whatever calls
  overlap, the store moves through a sequence of writes; the check of a call may have
  read an earlier store than the one its write meets. \<open>later_store\<close> applies such a
  sequence. \<open>unordered_pair\<close> is the set of the two identities a request joins, and
  \<open>addressed\<close> says that the request with the id is addressed to the user, and
  \<open>resolved\<close> that it is, moreover, no longer pending.
\<close>

datatype db_write =
    WriteUser string string
  | WriteSession string int
  | WriteRequest nat int int
  | WriteResponse nat int bool
  | WriteMessage bool nat int int msg_kind string "string option"

fun apply_write :: "database \<Rightarrow> db_write \<Rightarrow> database" where
  "apply_write db (WriteUser name hashed) = snd (create_user db name hashed)"
| "apply_write db (WriteSession tok uid) = snd (create_session db tok uid)"
| "apply_write db (WriteRequest now a b) = snd (request_write now db a b)"
| "apply_write db (WriteResponse now rid acc) = snd (respond_write now db rid acc)"
| "apply_write db (WriteMessage ok now a b k body loc) =
     snd (save_message ok now db a b k body loc)"

definition later_store :: "database \<Rightarrow> db_write list \<Rightarrow> database" where
  "later_store db ws = foldl apply_write db ws"

definition unordered_pair :: "friend_request \<Rightarrow> int set" where
  "unordered_pair r = {from_user_id r, to_user_id r}"

definition one_request_per_pair :: "database \<Rightarrow> bool" where
  "one_request_per_pair db \<longleftrightarrow> distinct (map unordered_pair (friend_requests db))"

definition addressed :: "database \<Rightarrow> int \<Rightarrow> int \<Rightarrow> bool" where
  "addressed db rid u \<longleftrightarrow>
     (case find (\<lambda>r. fr_id r = rid) (friend_requests db) of
        None \<Rightarrow> False
      | Some row \<Rightarrow> to_user_id row = u)"

definition resolved :: "database \<Rightarrow> int \<Rightarrow> int \<Rightarrow> bool" where
  "resolved db rid u \<longleftrightarrow>
     (case find (\<lambda>r. fr_id r = rid) (friend_requests db) of
        None \<Rightarrow> False
      | Some row \<Rightarrow> to_user_id row = u \<and> status row \<noteq> Pending)"

section \<open>The server: backend/main.py\<close>

subsection \<open>Strings and inbound frames\<close>

text \<open>
  A character stands for a code point below 256. \<open>is_space\<close> is Python's
  \<^verbatim>\<open>str.isspace\<close> on that range, and \<open>strip\<close> is \<^verbatim>\<open>str.strip()\<close>. \<open>quote\<close> is
  the apostrophe of the f-strings.

  \<^verbatim>\<open>receive_json\<close> hands the loop a parsed JSON object: a dictionary from keys to
  JSON values (floating-point numbers are left out). \<open>dict_get\<close> is \<^verbatim>\<open>data.get(k)\<close>,
  where a missing key and \<^verbatim>\<open>null\<close> both read as \<^verbatim>\<open>None\<close>. \<open>truthy\<close> is Python's
  truth value, and \<open>or_empty_strip\<close> is the expression
  \<^verbatim>\<open>(data.get(k) or "").strip()\<close>: a truthy value that is not a string has no
  \<^verbatim>\<open>strip\<close> and raises AttributeError.
\<close>

definition is_space :: "char \<Rightarrow> bool" where
  "is_space c = (let n = (of_char c :: nat)
                 in (9 \<le> n \<and> n \<le> 13) \<or> (28 \<le> n \<and> n \<le> 32) \<or> n = 133 \<or> n = 160)"

definition strip :: "string \<Rightarrow> string" where
  "strip s = rev (dropWhile is_space (rev (dropWhile is_space s)))"

definition quote :: string where
  "quote = [CHR 0x27]"

datatype json = JNull | JBool bool | JInt int | JStr string | JList "json list"
  | JDict "(string \<times> json) list"

type_synonym frame = "(string \<times> json) list"

definition dict_get :: "frame \<Rightarrow> string \<Rightarrow> json option" where
  "dict_get data k = map_of data k"

fun truthy :: "json option \<Rightarrow> bool" where
  "truthy None = False"
| "truthy (Some JNull) = False"
| "truthy (Some (JBool b)) = b"
| "truthy (Some (JInt n)) = (n \<noteq> 0)"
| "truthy (Some (JStr s)) = (s \<noteq> [])"
| "truthy (Some (JList xs)) = (xs \<noteq> [])"
| "truthy (Some (JDict kvs)) = (kvs \<noteq> [])"

definition or_empty_strip :: "json option \<Rightarrow> error + string" where
  "or_empty_strip v =
     (if \<not> truthy v then Inr (strip [])
      else (case v of Some (JStr s) \<Rightarrow> Inr (strip s) | _ \<Rightarrow> Inl AttributeError))"

subsection \<open>Connections, outbound frames and the trace\<close>

text \<open>
  A WebSocket object is known by its identity, a number. The outbound frames are the
  three JSON payloads the server builds: \<^verbatim>\<open>{"type": "system", "message"}\<close>,
  \<^verbatim>\<open>{"type": "chat", "from", "text"}\<close> and \<^verbatim>\<open>{"type": "file", "from", "filename", "url"}\<close>.
  The trace of a handler lists, in the order of the statements, each frame it sends,
  each message row it commits and each close it issues. Sends are taken to succeed.
  \<open>stored d d'\<close> lists the rows a call added to the messages table.
\<close>

type_synonym connection = nat

datatype frame_out = System string | Chat string string | FileNote string string string

datatype event = Sent connection frame_out | Stored message | Closed connection nat

datatype outcome = Continue | Raise error

record me_response =
  me_id :: int
  me_username :: string

record server =
  db :: database
  active_connections :: "string \<rightharpoonup> connection"

definition stored :: "database \<Rightarrow> database \<Rightarrow> event list" where
  "stored d d' = map Stored (drop (length (messages d)) (messages d'))"

subsection \<open>The connection registry\<close>

text \<open>\<^verbatim>\<open>active_connections\<close> is a dictionary from username to WebSocket. The three
  operations are the statements \<^verbatim>\<open>active_connections[username] = websocket\<close>,
  \<^verbatim>\<open>active_connections.get(name)\<close>, and the \<^verbatim>\<open>finally\<close> block
  \<^verbatim>\<open>if active_connections.get(username) is websocket: active_connections.pop(username, None)\<close>.\<close>

definition register :: "(string \<rightharpoonup> connection) \<Rightarrow> string \<Rightarrow> connection \<Rightarrow> (string \<rightharpoonup> connection)" where
  "register conns name websocket = conns(name \<mapsto> websocket)"

definition lookup :: "(string \<rightharpoonup> connection) \<Rightarrow> string \<Rightarrow> connection option" where
  "lookup conns name = conns name"

definition unregister :: "(string \<rightharpoonup> connection) \<Rightarrow> string \<Rightarrow> connection \<Rightarrow> (string \<rightharpoonup> connection)" where
  "unregister conns name websocket =
     (if lookup conns name = Some websocket then conns(name := None) else conns)"

subsection \<open>HTTP endpoints\<close>

definition get_current_user :: "database \<Rightarrow> string \<Rightarrow> error + me_response" where
  "get_current_user d tok =
     (case get_user_by_token d tok of
        None \<Rightarrow> Inl (HTTPException 401 ''Invalid or expired token'')
      | Some u \<Rightarrow> Inr \<lparr>me_id = user_id u, me_username = username u\<rparr>)"

definition get_history :: "database \<Rightarrow> string \<Rightarrow> string \<Rightarrow> int \<Rightarrow> error + message_view list" where
  "get_history d tok friend_username limit =
     (case get_current_user d tok of
        Inl e \<Rightarrow> Inl e
      | Inr me \<Rightarrow>
          (case get_user_by_username d (strip friend_username) of
             None \<Rightarrow> Inl (HTTPException 400 ''Friend not found'')
           | Some friend \<Rightarrow>
               if \<not> are_friends d (me_id me) (user_id friend)
               then Inl (HTTPException 400 ''You are not friends with this user'')
               else Inr (get_conversation d (me_id me) (user_id friend) limit)))"

text \<open>\<^verbatim>\<open>os.path.basename\<close> (the POSIX one) keeps what follows the last slash. \<open>original_name\<close> is
  lines 265 to 267 of \<^verbatim>\<open>upload_file\<close>. The endpoint takes from its environment the
  hex digits of the fresh uuid, the outcome of writing the file (\<open>os_error\<close>, the text
  of the OSError if there is one) and the outcome of the insert.\<close>

definition basename :: "string \<Rightarrow> string" where
  "basename p = rev (takeWhile (\<lambda>c. c \<noteq> CHR ''/'') (rev p))"

definition original_name :: "string option \<Rightarrow> string" where
  "original_name filename =
     (let n = basename (case filename of None \<Rightarrow> ''file.bin''
                        | Some f \<Rightarrow> if f = [] then ''file.bin'' else f)
      in if length n > 100 then drop (length n - 100) n else n)"

definition upload_file ::
  "string \<Rightarrow> string option \<Rightarrow> bool \<Rightarrow> nat \<Rightarrow> server \<Rightarrow> string \<Rightarrow> string \<Rightarrow> string option
     \<Rightarrow> (error + frame_out) \<times> event list \<times> server" where
  "upload_file uuid_hex os_error ok now s tok to_username filename =
     (case get_current_user (db s) tok of
        Inl e \<Rightarrow> (Inl e, [], s)
      | Inr me \<Rightarrow>
          (case get_user_by_username (db s) (strip to_username) of
             None \<Rightarrow> (Inl (HTTPException 400 ''Target user does not exist''), [], s)
           | Some target \<Rightarrow>
               if \<not> are_friends (db s) (me_id me) (user_id target)
               then (Inl (HTTPException 400 ''You are not friends with this user''), [], s)
               else
                 let name = original_name filename;
                     unique_name = uuid_hex @ ''_'' @ name
                 in (case os_error of
                       Some e \<Rightarrow> (Inl (HTTPException 500 (''Failed to save file: '' @ e)), [], s)
                     | None \<Rightarrow>
                         let url_path = ''/files/'' @ unique_name;
                             (r, d') = save_message ok now (db s) (me_id me) (user_id target)
                                         KFile name (Some url_path);
                             ws_payload = FileNote (me_username me) name url_path;
                             to_target = (case lookup (active_connections s) (username target) of
                                            None \<Rightarrow> [] | Some c \<Rightarrow> [Sent c ws_payload]);
                             to_sender = (case lookup (active_connections s) (me_username me) of
                                            None \<Rightarrow> [] | Some c \<Rightarrow> [Sent c ws_payload])
                         in (case r of
                               Inl e \<Rightarrow> (Inl e, stored (db s) d', s\<lparr>db := d'\<rparr>)
                             | Inr _ \<Rightarrow> (Inr ws_payload, stored (db s) d' @ to_target @ to_sender,
                                        s\<lparr>db := d'\<rparr>)))))"

subsection \<open>The WebSocket relay\<close>

text \<open>\<open>handle_frame\<close> is one pass through the body of \<^verbatim>\<open>while True\<close> in \<^verbatim>\<open>chat_ws\<close>
  for the frame \<open>data\<close>: \<open>Continue\<close> when the pass ends at \<^verbatim>\<open>continue\<close> or at the
  end of the body, \<open>Raise\<close> when an exception leaves the loop. \<open>relay_loop\<close> runs the
  frames a client sends before it disconnects, each with the outcome of its insert and
  the clock, and \<open>chat_ws\<close> is the whole handler.\<close>

definition handle_frame ::
  "bool \<Rightarrow> nat \<Rightarrow> me_response \<Rightarrow> connection \<Rightarrow> frame \<Rightarrow> server
     \<Rightarrow> outcome \<times> event list \<times> server" where
  "handle_frame ok now me websocket data s =
     (if dict_get data ''type'' \<noteq> Some (JStr ''chat'')
      then (Continue, [Sent websocket (System ''Unsupported message type.'')], s)
      else
        (case or_empty_strip (dict_get data ''to'') of
           Inl e \<Rightarrow> (Raise e, [], s)
         | Inr to_username \<Rightarrow>
        (case or_empty_strip (dict_get data ''text'') of
           Inl e \<Rightarrow> (Raise e, [], s)
         | Inr body \<Rightarrow>
        if to_username = [] \<or> body = []
        then (Continue,
              [Sent websocket (System (''Both '' @ quote @ ''to'' @ quote @ '' and '' @ quote @
                 ''text'' @ quote @ '' fields are required.''))], s)
        else
        (case get_user_by_username (db s) to_username of
           None \<Rightarrow>
             (Continue,
              [Sent websocket (System (''User '' @ quote @ to_username @ quote @
                 '' does not exist.''))], s)
         | Some target \<Rightarrow>
        if \<not> are_friends (db s) (me_id me) (user_id target)
        then (Continue,
              [Sent websocket (System (''You are not friends with '' @ quote @ to_username @
                 quote @ ''.''))], s)
        else
        (case lookup (active_connections s) to_username of
           None \<Rightarrow>
             let notice = Sent websocket (System (''User '' @ quote @ to_username @ quote @
                            '' is currently offline.''));
                 (r, d') = save_message ok now (db s) (me_id me) (user_id target) KText body None
             in ((case r of Inl e \<Rightarrow> Raise e | Inr _ \<Rightarrow> Continue),
                 notice # stored (db s) d', s\<lparr>db := d'\<rparr>)
         | Some target_ws \<Rightarrow>
             let (r, d') = save_message ok now (db s) (me_id me) (user_id target) KText body None;
                 msg_payload = Chat (me_username me) body
             in (case r of
                   Inl e \<Rightarrow> (Raise e, stored (db s) d', s\<lparr>db := d'\<rparr>)
                 | Inr _ \<Rightarrow>
                     (Continue,
                      stored (db s) d' @ [Sent target_ws msg_payload, Sent websocket msg_payload],
                      s\<lparr>db := d'\<rparr>)))))))"

fun relay_loop ::
  "me_response \<Rightarrow> connection \<Rightarrow> (bool \<times> nat \<times> frame) list \<Rightarrow> server \<Rightarrow> event list \<times> server" where
  "relay_loop me websocket [] s = ([], s)"
| "relay_loop me websocket ((ok, now, data) # rest) s =
     (case handle_frame ok now me websocket data s of
        (Continue, evs, s') \<Rightarrow>
          (let (evs', s'') = relay_loop me websocket rest s' in (evs @ evs', s''))
      | (Raise e, evs, s') \<Rightarrow> (evs, s'))"

definition chat_ws ::
  "string option \<Rightarrow> connection \<Rightarrow> (bool \<times> nat \<times> frame) list \<Rightarrow> server \<Rightarrow> event list \<times> server" where
  "chat_ws tok websocket inbound s =
     (case tok of
        None \<Rightarrow> ([Closed websocket 4401], s)
      | Some t \<Rightarrow>
          if t = [] then ([Closed websocket 4401], s)
          else
            (case get_current_user (db s) t of
               Inl e \<Rightarrow> ([Closed websocket 4401], s)
             | Inr me \<Rightarrow>
                 let name = me_username me;
                     s1 = s\<lparr>active_connections := register (active_connections s) name websocket\<rparr>;
                     (evs, s2) = relay_loop me websocket inbound s1
                 in (Sent websocket (System (''Connected as '' @ name)) # evs,
                     s2\<lparr>active_connections := unregister (active_connections s2) name websocket\<rparr>)))"

section \<open>The stored filename as the specification words it\<close>

text \<open>The part of a name after its last slash, cut to its last 100 characters when it
  is longer, and \<^verbatim>\<open>file.bin\<close> when the upload has no filename (none, or an empty one).\<close>

fun after_last_slash :: "string \<Rightarrow> string" where
  "after_last_slash [] = []"
| "after_last_slash (c # cs) =
     (if CHR ''/'' \<in> set cs then after_last_slash cs
      else if c = CHR ''/'' then cs else c # cs)"

definition spec_filename :: "string option \<Rightarrow> string" where
  "spec_filename filename =
     (case filename of
        None \<Rightarrow> ''file.bin''
      | Some f \<Rightarrow>
          if f = [] then ''file.bin''
          else let b = after_last_slash f
               in if length b > 100 then rev (take 100 (rev b)) else b)"

section \<open>Sample stores and frames\<close>

text \<open>Three users, alice, bob and carol; one request from alice to bob; alice on
  connection 1 and bob on connection 2.\<close>

definition alice :: user where
  "alice = \<lparr>user_id = 1, username = ''alice'', password_hash = ''a1''\<rparr>"

definition bob :: user where
  "bob = \<lparr>user_id = 2, username = ''bob'', password_hash = ''b2''\<rparr>"

definition carol :: user where
  "carol = \<lparr>user_id = 3, username = ''carol'', password_hash = ''c3''\<rparr>"

definition request_1 :: "fr_status \<Rightarrow> nat option \<Rightarrow> friend_request" where
  "request_1 st t = \<lparr>fr_id = 1, from_user_id = 1, to_user_id = 2, status = st,
                      fr_created_at = 5, responded_at = t\<rparr>"

definition db_with :: "friend_request list \<Rightarrow> message list \<Rightarrow> database" where
  "db_with frs ms =
     \<lparr>users = [alice, bob, carol],
      sessions = [\<lparr>token = ''ta'', session_user_id = 1\<rparr>, \<lparr>token = ''tb'', session_user_id = 2\<rparr>],
      friend_requests = frs, messages = ms\<rparr>"

definition db_pending :: database where
  "db_pending = db_with [request_1 Pending None] []"

definition db_accepted :: database where
  "db_accepted = db_with [request_1 Accepted (Some 7)] []"

definition message_1 :: message where
  "message_1 = \<lparr>msg_id = 1, msg_from_user_id = 1, msg_to_user_id = 2, kind = KText,
                 msg_text = ''first'', url = None, created_at = 10\<rparr>"

definition message_2 :: message where
  "message_2 = \<lparr>msg_id = 2, msg_from_user_id = 2, msg_to_user_id = 1, kind = KText,
                 msg_text = ''second'', url = None, created_at = 20\<rparr>"

definition db_chat :: database where
  "db_chat = db_with [request_1 Accepted (Some 7)] [message_1, message_2]"

definition view_1 :: message_view where
  "view_1 = \<lparr>mv_from_username = ''alice'', mv_to_username = ''bob'', mv_kind = KText,
              mv_text = ''first'', mv_url = None, mv_created_at = 10\<rparr>"

definition me_alice :: me_response where
  "me_alice = \<lparr>me_id = 1, me_username = ''alice''\<rparr>"

definition srv_empty :: server where
  "srv_empty = \<lparr>db = db_accepted, active_connections = Map.empty\<rparr>"

definition srv_offline :: server where
  "srv_offline = \<lparr>db = db_accepted, active_connections = [''alice'' \<mapsto> 1]\<rparr>"

definition srv_online :: server where
  "srv_online = \<lparr>db = db_accepted, active_connections = [''alice'' \<mapsto> 1, ''bob'' \<mapsto> 2]\<rparr>"

definition frame_hi :: frame where
  "frame_hi = [(''type'', JStr ''chat''), (''to'', JStr '' bob''), (''text'', JStr ''hi '')]"

definition frame_bad :: frame where
  "frame_bad = [(''type'', JStr ''chat''), (''to'', JStr ''''), (''text'', JInt 5)]"

definition message_hi :: message where
  "message_hi = \<lparr>msg_id = 1, msg_from_user_id = 1, msg_to_user_id = 2, kind = KText,
                  msg_text = ''hi'', url = None, created_at = 9\<rparr>"

definition file_note :: frame_out where
  "file_note = FileNote ''alice'' ''b.txt'' ''/files/u1_b.txt''"

definition message_file :: message where
  "message_file = \<lparr>msg_id = 1, msg_from_user_id = 1, msg_to_user_id = 2, kind = KFile,
                    msg_text = ''b.txt'', url = Some ''/files/u1_b.txt'', created_at = 9\<rparr>"

definition request_2 :: friend_request where
  "request_2 = \<lparr>fr_id = 2, from_user_id = 2, to_user_id = 1, status = Pending,
                 fr_created_at = 6, responded_at = None\<rparr>"

definition db_users :: database where
  "db_users = db_with [] []"

definition db_both :: database where
  "db_both = db_with [request_1 Pending None, request_2] []"

definition db_rejected :: database where
  "db_rejected = db_with [request_1 Rejected (Some 8)] []"

lemmas overlap_defs = request_2_def db_users_def db_both_def db_rejected_def

lemmas sample_defs = alice_def bob_def carol_def request_1_def db_with_def db_pending_def
  db_accepted_def

lemmas server_defs = srv_offline_def srv_online_def frame_hi_def frame_bad_def message_hi_def
  me_alice_def message_1_def message_2_def db_chat_def

lemmas eval_defs = get_current_user_def get_user_by_token_def user_by_id_def
  get_user_by_username_def are_friends_def strip_def is_space_def save_message_def
  new_message_def join_users_def stored_def lookup_def next_id_def Let_def dict_get_def
  or_empty_strip_def quote_def

section \<open>Friend requests\<close>

lemmas request_defs = create_friend_request_def request_check_def request_write_def
  select_between_def

lemmas respond_defs = respond_to_friend_request_def respond_check_def respond_write_def
  in_int64_def

lemma between_iff_pair: "between a b r \<longleftrightarrow> unordered_pair r = {a, b}"
  by (auto simp: between_def unordered_pair_def doubleton_eq_iff)

lemma are_friends_iff:
  "are_friends d a b \<longleftrightarrow> (\<exists>r \<in> set (friend_requests d). status r = Accepted \<and> between a b r)"
  by (auto simp: are_friends_def find_None_iff between_def)

lemma find_Some_member: "find P xs = Some x \<Longrightarrow> x \<in> set xs \<and> P x"
  by (induction xs) (auto split: if_splits)

lemma select_between_None:
  "select_between d a b = None \<longleftrightarrow> (\<forall>r \<in> set (friend_requests d). \<not> between a b r)"
  by (auto simp: select_between_def between_def find_None_iff split: option.splits
      dest: find_Some_member)

lemma select_between_Some:
  "select_between d a b = Some row \<Longrightarrow> row \<in> set (friend_requests d) \<and> between a b row"
  by (auto simp: select_between_def between_def split: option.splits dest: find_Some_member)

text \<open>What holds of every call: when a request already joins the two identities, in
  either direction and whatever its status, the check raises the ValueError derived
  from the status of such a request and the store stays as it was.\<close>

lemma create_friend_request_existing:
  assumes "get_user_by_username d name = Some b" "user_id b \<noteq> a"
    and "\<exists>r \<in> set (friend_requests d). between a (user_id b) r"
  shows "\<exists>r \<in> set (friend_requests d). between a (user_id b) r \<and>
           create_friend_request now d a name = (Inl (ValueError (existing_message (status r))), d)"
proof -
  from assms(3) obtain row where row: "select_between d a (user_id b) = Some row"
    by (cases "select_between d a (user_id b)") (auto simp: select_between_None)
  then have "row \<in> set (friend_requests d)" "between a (user_id b) row"
    by (auto dest: select_between_Some)
  moreover have "create_friend_request now d a name = (Inl (ValueError (existing_message (status row))), d)"
    using assms(1,2) row by (simp add: create_friend_request_def request_check_def)
  ultimately show ?thesis by blast
qed

text \<open>A call during which no other call commits keeps the requests of a store to one
  per unordered pair.\<close>

lemma create_friend_request_alone:
  "one_request_per_pair d \<Longrightarrow> one_request_per_pair (snd (create_friend_request now d a name))"
proof -
  assume inv: "one_request_per_pair d"
  show ?thesis
  proof (cases "request_check d a name")
    case (Inl e)
    with inv show ?thesis by (simp add: create_friend_request_def)
  next
    case (Inr to_id)
    then have "select_between d a to_id = None"
      by (auto simp: request_check_def Let_def split: option.splits if_splits)
    then have "{a, to_id} \<notin> set (map unordered_pair (friend_requests d))"
      by (auto simp: select_between_None between_iff_pair)
    with inv Inr show ?thesis
      by (auto simp: create_friend_request_def request_write_def one_request_per_pair_def
          unordered_pair_def Let_def)
  qed
qed

text \<open>
  C3. Two calls that overlap, on a store where no request joins alice and bob: alice
  asks for bob and bob asks for alice. Both checks read that store and pass. Both
  inserts then succeed, the \<^verbatim>\<open>UNIQUE\<close> constraint being on the ordered pair, and the
  store holds two requests for the one unordered pair.
\<close>

theorem create_friend_request_overlapping_calls:
  "request_check db_users 1 ''bob'' = Inr 2
   \<and> request_check db_users 2 ''alice'' = Inr 1
   \<and> request_write 5 db_users 1 2 =
       (Inr \<lparr>rv_id = 1, rv_status = Pending, rv_from_username = ''alice'',
             rv_to_username = ''bob''\<rparr>, db_pending)
   \<and> request_write 6 db_pending 2 1 =
       (Inr \<lparr>rv_id = 2, rv_status = Pending, rv_from_username = ''bob'',
             rv_to_username = ''alice''\<rparr>, db_both)
   \<and> friend_requests db_both = [request_1 Pending None, request_2]
   \<and> \<not> one_request_per_pair db_both"
  by (simp add: request_defs select_request_view_def user_by_id_def get_user_by_username_def
      next_id_def one_request_per_pair_def unordered_pair_def insert_commute
      sample_defs overlap_defs)

lemma find_updated:
  "find (\<lambda>r. fr_id r = rid)
        (map (\<lambda>r. if fr_id r = rid' then r\<lparr>status := s, responded_at := t\<rparr> else r) frs)
   = map_option (\<lambda>r. if fr_id r = rid' then r\<lparr>status := s, responded_at := t\<rparr> else r)
       (find (\<lambda>r. fr_id r = rid) frs)"
  by (induction frs) auto

lemma find_append_Some: "find P xs = Some x \<Longrightarrow> find P (xs @ ys) = Some x"
  by (induction xs) (auto split: if_splits)

lemma respond_success:
  assumes "respond_to_friend_request now d rid u acc = (Inr v, d')"
  obtains row where "find (\<lambda>r. fr_id r = rid) (friend_requests d) = Some row"
    and "to_user_id row = u" and "status row = Pending" and "in_int64 rid"
    and "d' = d\<lparr>friend_requests :=
                  map (\<lambda>r. if fr_id r = rid
                            then r\<lparr>status := (if acc then Accepted else Rejected),
                                   responded_at := Some now\<rparr>
                            else r) (friend_requests d)\<rparr>"
    and "select_request_view d' rid = Inr v"
  using assms
  by (auto simp: respond_to_friend_request_def respond_check_def respond_write_def Let_def
      split: option.splits if_splits sum.splits)

lemma respond_after_success:
  assumes "respond_to_friend_request now d rid u acc = (Inr v, d')"
  shows "\<exists>row'. find (\<lambda>r. fr_id r = rid) (friend_requests d') = Some row' \<and>
           to_user_id row' = u \<and>
           status row' = (if acc then Accepted else Rejected) \<and>
           responded_at row' = Some now \<and> rv_status v = status row'"
proof -
  from assms obtain row where row: "find (\<lambda>r. fr_id r = rid) (friend_requests d) = Some row"
    "to_user_id row = u"
    and d': "d' = d\<lparr>friend_requests :=
                  map (\<lambda>r. if fr_id r = rid
                            then r\<lparr>status := (if acc then Accepted else Rejected),
                                   responded_at := Some now\<rparr>
                            else r) (friend_requests d)\<rparr>"
    and v: "select_request_view d' rid = Inr v"
    by (rule respond_success)
  let ?row' = "row\<lparr>status := (if acc then Accepted else Rejected), responded_at := Some now\<rparr>"
  from row(1) have "fr_id row = rid" by (auto dest: find_Some_member)
  then have f: "find (\<lambda>r. fr_id r = rid) (friend_requests d') = Some ?row'"
    using row(1) by (simp add: d' find_updated)
  moreover have "rv_status v = status ?row'"
    using v f by (auto simp: select_request_view_def split: option.splits)
  ultimately show ?thesis using row(2) by auto
qed

lemma respond_resolved:
  assumes "resolved d rid u" "in_int64 rid"
  shows "respond_to_friend_request now d rid u' acc =
           (Inl (ValueError (if u' = u then ''Friend request is not pending''
                             else ''You are not allowed to respond to this request'')), d)"
  using assms
  by (auto simp: resolved_def respond_to_friend_request_def respond_check_def split: option.splits)

text \<open>No write undoes a resolution: an insert leaves the rows there are, and an
  \<^verbatim>\<open>UPDATE\<close> sets accepted or rejected, never pending.\<close>

lemma resolved_apply_write: "resolved d rid u \<Longrightarrow> resolved (apply_write d w) rid u"
proof (cases w)
  case (WriteRequest now a b)
  then show "resolved d rid u \<Longrightarrow> ?thesis"
    by (auto simp: resolved_def request_write_def Let_def find_append_Some split: option.splits)
next
  case (WriteResponse now rid' acc)
  then show "resolved d rid u \<Longrightarrow> ?thesis"
    by (auto simp: resolved_def respond_write_def Let_def find_updated split: option.splits)
next
  case (WriteUser name hashed)
  then show "resolved d rid u \<Longrightarrow> ?thesis"
    by (simp add: resolved_def create_user_def Let_def)
next
  case (WriteSession tok uid)
  then show "resolved d rid u \<Longrightarrow> ?thesis"
    by (simp add: resolved_def create_session_def)
next
  case (WriteMessage ok now a b k body loc)
  then show "resolved d rid u \<Longrightarrow> ?thesis"
    by (simp add: resolved_def save_message_def Let_def split: option.splits)
qed

lemma resolved_later_store: "resolved d rid u \<Longrightarrow> resolved (later_store d ws) rid u"
proof (induction ws rule: rev_induct)
  case Nil
  then show ?case by (simp add: later_store_def)
next
  case (snoc w ws)
  then show ?case by (simp add: later_store_def resolved_apply_write)
qed

text \<open>Also the write of a call whose check read an earlier store resolves the
  request: the \<^verbatim>\<open>UPDATE\<close> comes after whatever was written since the check.\<close>

lemma addressed_apply_write: "addressed d rid u \<Longrightarrow> addressed (apply_write d w) rid u"
proof (cases w)
  case (WriteRequest now a b)
  then show "addressed d rid u \<Longrightarrow> ?thesis"
    by (auto simp: addressed_def request_write_def Let_def find_append_Some split: option.splits)
next
  case (WriteResponse now rid' acc)
  then show "addressed d rid u \<Longrightarrow> ?thesis"
    by (auto simp: addressed_def respond_write_def Let_def find_updated split: option.splits)
next
  case (WriteUser name hashed)
  then show "addressed d rid u \<Longrightarrow> ?thesis"
    by (simp add: addressed_def create_user_def Let_def)
next
  case (WriteSession tok uid)
  then show "addressed d rid u \<Longrightarrow> ?thesis"
    by (simp add: addressed_def create_session_def)
next
  case (WriteMessage ok now a b k body loc)
  then show "addressed d rid u \<Longrightarrow> ?thesis"
    by (simp add: addressed_def save_message_def Let_def split: option.splits)
qed

lemma addressed_later_store: "addressed d rid u \<Longrightarrow> addressed (later_store d ws) rid u"
proof (induction ws rule: rev_induct)
  case Nil
  then show ?case by (simp add: later_store_def)
next
  case (snoc w ws)
  then show ?case by (simp add: later_store_def addressed_apply_write)
qed

lemma respond_write_resolves:
  assumes "respond_check d rid u = Inr row"
  shows "resolved (snd (respond_write now (later_store d ws) rid acc)) rid u"
proof -
  from assms have "addressed d rid u"
    by (auto simp: respond_check_def addressed_def split: if_splits option.splits)
  then have "addressed (later_store d ws) rid u" by (rule addressed_later_store)
  then obtain row' where r: "find (\<lambda>r. fr_id r = rid) (friend_requests (later_store d ws)) = Some row'"
    "to_user_id row' = u"
    by (auto simp: addressed_def split: option.splits)
  from r(1) have "fr_id row' = rid" by (auto dest: find_Some_member)
  with r show ?thesis
    by (simp add: resolved_def respond_write_def Let_def find_updated)
qed

text \<open>
  C4, as the code has it. For a request id inside SQLite's 64 bits,
  \<^verbatim>\<open>respond_to_friend_request\<close> raises "Friend request not found" when no request has
  the id, "You are not allowed to respond to this request" when the responder is not
  the request's target, and, for the target, "Friend request is not pending" when the
  status is not pending. A call that succeeds sets the status to accepted or rejected
  and stamps the responded time. Every call on the same id that starts once a
  successful call has returned, whatever has been written to the store in between,
  fails and changes nothing: with "not pending" when the request's target makes it,
  with "not allowed" when anyone else does (the target check comes first).
\<close>

theorem respond_to_friend_request_once:
  "(in_int64 rid \<and> find (\<lambda>r. fr_id r = rid) (friend_requests d) = None \<longrightarrow>
      respond_to_friend_request now d rid u acc =
        (Inl (ValueError ''Friend request not found''), d))
   \<and> (in_int64 rid \<and> find (\<lambda>r. fr_id r = rid) (friend_requests d) = Some row \<and>
      to_user_id row \<noteq> u \<longrightarrow>
      respond_to_friend_request now d rid u acc =
        (Inl (ValueError ''You are not allowed to respond to this request''), d))
   \<and> (in_int64 rid \<and> find (\<lambda>r. fr_id r = rid) (friend_requests d) = Some row \<and>
      to_user_id row = u \<and> status row \<noteq> Pending \<longrightarrow>
      respond_to_friend_request now d rid u acc =
        (Inl (ValueError ''Friend request is not pending''), d))
   \<and> (respond_to_friend_request now d rid u acc = (Inr v, d') \<longrightarrow>
      (\<exists>row'. find (\<lambda>r. fr_id r = rid) (friend_requests d') = Some row' \<and>
         status row' = (if acc then Accepted else Rejected) \<and>
         responded_at row' = Some now \<and> rv_status v = status row') \<and>
      respond_to_friend_request now' (later_store d' ws) rid u' acc' =
        (Inl (ValueError (if u' = u then ''Friend request is not pending''
                          else ''You are not allowed to respond to this request'')),
         later_store d' ws))"
proof (intro conjI impI)
  assume ok: "respond_to_friend_request now d rid u acc = (Inr v, d')"
  from respond_after_success [OF ok] obtain row' where
    r: "find (\<lambda>r. fr_id r = rid) (friend_requests d') = Some row'" "to_user_id row' = u"
      "status row' = (if acc then Accepted else Rejected)" "responded_at row' = Some now"
      "rv_status v = status row'"
    by blast
  then show "\<exists>row'. find (\<lambda>r. fr_id r = rid) (friend_requests d') = Some row' \<and>
         status row' = (if acc then Accepted else Rejected) \<and>
         responded_at row' = Some now \<and> rv_status v = status row'"
    by blast
  have "resolved d' rid u" using r(1-3) by (simp add: resolved_def)
  then have "resolved (later_store d' ws) rid u" by (rule resolved_later_store)
  moreover have "in_int64 rid" using ok by (rule respond_success)
  ultimately show "respond_to_friend_request now' (later_store d' ws) rid u' acc' =
        (Inl (ValueError (if u' = u then ''Friend request is not pending''
                          else ''You are not allowed to respond to this request'')),
         later_store d' ws)"
    by (rule respond_resolved)
qed (auto simp: respond_to_friend_request_def respond_check_def)

text \<open>Bob accepts request 1; an unknown id; carol responding; bob responding again, also
  after another write has set the request to rejected.\<close>

theorem respond_to_friend_request_once_witness:
  "respond_to_friend_request 7 db_pending 1 2 True =
     (Inr \<lparr>rv_id = 1, rv_status = Accepted, rv_from_username = ''alice'',
           rv_to_username = ''bob''\<rparr>, db_accepted)
   \<and> in_int64 1 \<and> in_int64 9
   \<and> find (\<lambda>r. fr_id r = 1) (friend_requests db_pending) = Some (request_1 Pending None)
   \<and> find (\<lambda>r. fr_id r = 9) (friend_requests db_pending) = None
   \<and> respond_to_friend_request 7 db_pending 9 2 True =
        (Inl (ValueError ''Friend request not found''), db_pending)
   \<and> respond_to_friend_request 7 db_pending 1 3 True =
        (Inl (ValueError ''You are not allowed to respond to this request''), db_pending)
   \<and> find (\<lambda>r. fr_id r = 1) (friend_requests db_accepted) = Some (request_1 Accepted (Some 7))
   \<and> respond_to_friend_request 8 db_accepted 1 2 False =
        (Inl (ValueError ''Friend request is not pending''), db_accepted)
   \<and> later_store db_accepted [WriteResponse 8 1 False] = db_rejected
   \<and> respond_to_friend_request 9 db_rejected 1 2 True =
        (Inl (ValueError ''Friend request is not pending''), db_rejected)"
proof -
  have ok: "respond_to_friend_request 7 db_pending 1 2 True =
     (Inr \<lparr>rv_id = 1, rv_status = Accepted, rv_from_username = ''alice'',
           rv_to_username = ''bob''\<rparr>, db_accepted)"
    by (simp add: respond_defs select_request_view_def user_by_id_def sample_defs)
  have i: "in_int64 1" "in_int64 9" by (simp_all add: in_int64_def)
  have f1: "find (\<lambda>r. fr_id r = 1) (friend_requests db_pending) = Some (request_1 Pending None)"
    by (simp add: sample_defs)
  have f9: "find (\<lambda>r. fr_id r = 9) (friend_requests db_pending) = None"
    by (simp add: sample_defs)
  have t3: "to_user_id (request_1 Pending None) \<noteq> 3" by (simp add: sample_defs)
  have f1': "find (\<lambda>r. fr_id r = 1) (friend_requests db_accepted) = Some (request_1 Accepted (Some 7))"
    "to_user_id (request_1 Accepted (Some 7)) = 2" "status (request_1 Accepted (Some 7)) \<noteq> Pending"
    by (simp_all add: sample_defs)
  have l: "later_store db_accepted [WriteResponse 8 1 False] = db_rejected"
    by (simp add: later_store_def respond_write_def Let_def sample_defs overlap_defs)
  have a: "respond_to_friend_request 7 db_pending 9 2 True =
        (Inl (ValueError ''Friend request not found''), db_pending)"
    using i f9 respond_to_friend_request_once [where rid = 9 and d = db_pending and now = 7
      and u = 2 and acc = True]
    by blast
  have b: "respond_to_friend_request 7 db_pending 1 3 True =
        (Inl (ValueError ''You are not allowed to respond to this request''), db_pending)"
    using i f1 t3 respond_to_friend_request_once [where rid = 1 and d = db_pending and now = 7
      and u = 3 and acc = True and row = "request_1 Pending None"]
    by blast
  have e: "respond_to_friend_request 8 db_accepted 1 2 False =
        (Inl (ValueError ''Friend request is not pending''), db_accepted)"
    using i f1' respond_to_friend_request_once [where rid = 1 and d = db_accepted and now = 8
      and u = 2 and acc = False and row = "request_1 Accepted (Some 7)"]
    by blast
  have "respond_to_friend_request 9 (later_store db_accepted [WriteResponse 8 1 False]) 1 2 True =
        (Inl (ValueError (if (2::int) = 2 then ''Friend request is not pending''
                          else ''You are not allowed to respond to this request'')),
         later_store db_accepted [WriteResponse 8 1 False])"
    using ok respond_to_friend_request_once [where rid = 1 and d = db_pending and now = 7
      and u = 2 and acc = True and d' = db_accepted and now' = 9 and u' = 2 and acc' = True
      and ws = "[WriteResponse 8 1 False]"
      and v = "\<lparr>rv_id = 1, rv_status = Accepted, rv_from_username = ''alice'',
           rv_to_username = ''bob''\<rparr>"]
    by blast
  then have c: "respond_to_friend_request 9 db_rejected 1 2 True =
        (Inl (ValueError ''Friend request is not pending''), db_rejected)"
    by (simp add: l)
  show ?thesis using ok i f1 f9 f1'(1) l a b e c by simp
qed

text \<open>After bob has accepted request 1, carol's call on the same id fails with "not
  allowed", not with "not pending".\<close>

theorem respond_to_friend_request_counterexample:
  "respond_to_friend_request 7 db_pending 1 2 True =
     (Inr \<lparr>rv_id = 1, rv_status = Accepted, rv_from_username = ''alice'',
           rv_to_username = ''bob''\<rparr>, db_accepted)
   \<and> respond_to_friend_request 8 db_accepted 1 3 True =
        (Inl (ValueError ''You are not allowed to respond to this request''), db_accepted)
   \<and> respond_to_friend_request 8 db_accepted 1 3 True \<noteq>
        (Inl (ValueError ''Friend request is not pending''), db_accepted)"
  by (simp add: respond_defs select_request_view_def user_by_id_def sample_defs)

text \<open>Two calls of bob that overlap, one accepting and one rejecting: both checks read
  the pending request and pass, and the second \<^verbatim>\<open>UPDATE\<close> overwrites the first. The
  statement above says nothing of such a call.\<close>

lemma respond_overlapping_calls:
  "respond_check db_pending 1 2 = Inr (request_1 Pending None)
   \<and> respond_write 7 db_pending 1 True =
       (Inr \<lparr>rv_id = 1, rv_status = Accepted, rv_from_username = ''alice'',
             rv_to_username = ''bob''\<rparr>, db_accepted)
   \<and> respond_write 8 db_accepted 1 False =
       (Inr \<lparr>rv_id = 1, rv_status = Rejected, rv_from_username = ''alice'',
             rv_to_username = ''bob''\<rparr>, db_rejected)"
  by (simp add: respond_defs select_request_view_def user_by_id_def sample_defs overlap_defs)

text \<open>
  C5. \<^verbatim>\<open>are_friends\<close> holds exactly when a request between the two identities, in
  either direction, has the status accepted. It is symmetric, it is false while every
  request between the two is pending or rejected, and once the target has accepted a
  request its two identities are friends, in both orders.
\<close>

theorem are_friends_accepted:
  "(are_friends d a b \<longleftrightarrow>
      (\<exists>r \<in> set (friend_requests d). status r = Accepted \<and>
         ((from_user_id r = a \<and> to_user_id r = b) \<or> (from_user_id r = b \<and> to_user_id r = a))))
   \<and> are_friends d a b = are_friends d b a
   \<and> ((\<forall>r \<in> set (friend_requests d). between a b r \<longrightarrow> status r = Pending \<or> status r = Rejected)
        \<longrightarrow> \<not> are_friends d a b)
   \<and> (find (\<lambda>r. fr_id r = rid) (friend_requests d) = Some row \<and>
       respond_to_friend_request now d rid u True = (Inr v, d')
        \<longrightarrow> are_friends d' (from_user_id row) (to_user_id row) \<and>
            are_friends d' (to_user_id row) (from_user_id row))"
proof (intro conjI impI)
  show "are_friends d a b = are_friends d b a"
    by (auto simp: are_friends_iff between_def)
next
  assume "\<forall>r \<in> set (friend_requests d). between a b r \<longrightarrow> status r = Pending \<or> status r = Rejected"
  then show "\<not> are_friends d a b" by (auto simp: are_friends_iff)
next
  assume h: "find (\<lambda>r. fr_id r = rid) (friend_requests d) = Some row \<and>
       respond_to_friend_request now d rid u True = (Inr v, d')"
  then have d': "d' = d\<lparr>friend_requests :=
                  map (\<lambda>r. if fr_id r = rid
                            then r\<lparr>status := Accepted, responded_at := Some now\<rparr>
                            else r) (friend_requests d)\<rparr>"
    by (auto elim!: respond_success)
  from h have "row \<in> set (friend_requests d)" "fr_id row = rid"
    by (auto simp: find_Some_iff)
  then have "row\<lparr>status := Accepted, responded_at := Some now\<rparr> \<in> set (friend_requests d')"
    by (force simp: d')
  then have "\<exists>r \<in> set (friend_requests d'). status r = Accepted \<and>
      between (from_user_id row) (to_user_id row) r"
    by (rule rev_bexI) (simp add: between_def)
  then show "are_friends d' (from_user_id row) (to_user_id row)"
    by (simp add: are_friends_iff)
  then show "are_friends d' (to_user_id row) (from_user_id row)"
    by (auto simp: are_friends_iff between_def)
qed (auto simp: are_friends_iff between_def)

text \<open>Alice and bob are not friends while request 1 is pending and are friends once bob
  has accepted it.\<close>

theorem are_friends_accepted_witness:
  "\<not> are_friends db_pending 1 2 \<and> \<not> are_friends db_pending 2 1
   \<and> find (\<lambda>r. fr_id r = 1) (friend_requests db_pending) = Some (request_1 Pending None)
   \<and> respond_to_friend_request 7 db_pending 1 2 True =
     (Inr \<lparr>rv_id = 1, rv_status = Accepted, rv_from_username = ''alice'',
           rv_to_username = ''bob''\<rparr>, db_accepted)
   \<and> are_friends db_accepted 1 2 \<and> are_friends db_accepted 2 1"
proof -
  have ok: "respond_to_friend_request 7 db_pending 1 2 True =
     (Inr \<lparr>rv_id = 1, rv_status = Accepted, rv_from_username = ''alice'',
           rv_to_username = ''bob''\<rparr>, db_accepted)"
    by (simp add: respond_defs select_request_view_def user_by_id_def sample_defs)
  have f1: "find (\<lambda>r. fr_id r = 1) (friend_requests db_pending) = Some (request_1 Pending None)"
    by (simp add: sample_defs)
  have p: "\<forall>r \<in> set (friend_requests db_pending). between 1 2 r \<longrightarrow> status r = Pending \<or> status r = Rejected"
    by (simp add: sample_defs)
  have ft: "from_user_id (request_1 Pending None) = 1" "to_user_id (request_1 Pending None) = 2"
    by (simp_all add: sample_defs)
  note a = are_friends_accepted [of db_pending 1 2 1 "request_1 Pending None" 7 2
      "\<lparr>rv_id = 1, rv_status = Accepted, rv_from_username = ''alice'',
           rv_to_username = ''bob''\<rparr>" db_accepted]
  show ?thesis using ok f1 p ft a by metis
qed

section \<open>Message history\<close>

text \<open>What \<^verbatim>\<open>get_conversation\<close> returns: rows of the two parties only, in the order
  of creation time and then id, no more than a limit that is not negative, and the
  first rows of the whole ordered conversation.\<close>

lemma conversation_rows_parties:
  "m \<in> set (conversation_rows d a b limit) \<Longrightarrow>
     m \<in> set (messages d) \<and>
     ((msg_from_user_id m = a \<and> msg_to_user_id m = b) \<or>
      (msg_from_user_id m = b \<and> msg_to_user_id m = a))"
  by (auto simp: conversation_rows_def Let_def split: if_splits dest!: in_set_takeD)

lemma conversation_rows_sorted:
  "sorted (map (\<lambda>m. (created_at m, msg_id m)) (conversation_rows d a b limit))"
  by (simp add: conversation_rows_def Let_def take_map [symmetric])

lemma get_conversation_length:
  "0 \<le> limit \<Longrightarrow> length (get_conversation d a b limit) \<le> nat limit"
proof -
  assume "0 \<le> limit"
  then have "length (conversation_rows d a b limit) \<le> nat limit"
    by (simp add: conversation_rows_def Let_def)
  moreover have "length (List.map_filter f xs) \<le> length xs" for f :: "message \<Rightarrow> message_view option" and xs
    by (simp add: List.map_filter_def)
  ultimately show ?thesis unfolding get_conversation_def by (rule order_trans [rotated])
qed

lemma conversation_rows_prefix:
  "0 \<le> limit \<Longrightarrow>
     conversation_rows d a b limit = take (nat limit) (conversation_rows d a b (- 1))"
  by (simp add: conversation_rows_def Let_def)

text \<open>
  C1. With two messages between alice and bob, created at 10 and at 20, the history
  read with limit 1 is the message created at 10: the query orders ascending and cuts
  with \<^verbatim>\<open>LIMIT\<close>, so it keeps the oldest rows, where its docstring says "the most
  recent messages".
\<close>

theorem get_history_limit_keeps_oldest:
  "messages db_chat = [message_1, message_2]
   \<and> created_at message_1 < created_at message_2
   \<and> get_conversation db_chat 1 2 1 = [view_1]
   \<and> get_history db_chat ''ta'' ''bob'' 1 = Inr [view_1]"
  by (simp add: get_history_def get_conversation_def conversation_rows_def
      eval_defs sample_defs server_defs view_1_def)

section \<open>The connection registry\<close>

text \<open>
  C8. After two registrations under one name the lookup gives the second connection.
  An unregister that presents the first is then without effect and leaves the
  registry as a single registration of the second would; an unregister that presents
  the registered connection removes the entry. The registry is a dictionary, so a name
  has at most one entry.
\<close>

theorem registry_upsert_conditional_removal:
  "lookup (register (register conns name c1) name c2) name = Some c2
   \<and> (c1 \<noteq> c2 \<longrightarrow>
        unregister (register (register conns name c1) name c2) name c1 = register conns name c2)
   \<and> lookup (unregister (register conns name c) name c) name = None
   \<and> (lookup conns name = Some c \<longrightarrow> unregister conns name c = conns(name := None))
   \<and> (lookup conns name \<noteq> Some c \<longrightarrow> unregister conns name c = conns)"
  by (simp add: lookup_def register_def unregister_def)

theorem registry_upsert_conditional_removal_witness:
  "(1::nat) \<noteq> 2
   \<and> unregister (register (register Map.empty ''alice'' 1) ''alice'' 2) ''alice'' 1
       = register Map.empty ''alice'' 2
   \<and> lookup (unregister (register (register Map.empty ''alice'' 1) ''alice'' 2) ''alice'' 1) ''alice''
       = Some 2
   \<and> lookup [''alice'' \<mapsto> 2] ''alice'' = Some 2
   \<and> unregister [''alice'' \<mapsto> 2] ''alice'' 2 = Map.empty
   \<and> lookup [''alice'' \<mapsto> 2] ''alice'' \<noteq> Some 1
   \<and> unregister [''alice'' \<mapsto> 2] ''alice'' 1 = [''alice'' \<mapsto> 2]"
proof -
  have h: "(1::nat) \<noteq> 2" "lookup [''alice'' \<mapsto> 2::nat] ''alice'' = Some 2"
    "lookup [''alice'' \<mapsto> 2::nat] ''alice'' \<noteq> Some 1"
    by (simp_all add: lookup_def)
  note a = registry_upsert_conditional_removal [of Map.empty "''alice''" 1 2 2]
  note b = registry_upsert_conditional_removal [of "[''alice'' \<mapsto> 2]" "''alice''" 1 2 2]
  note c = registry_upsert_conditional_removal [of "[''alice'' \<mapsto> 2]" "''alice''" 1 2 1]
  show ?thesis using h a b c by (simp add: lookup_def register_def)
qed

section \<open>File shares\<close>







lemma user_by_id_of_username:
  "get_user_by_username d n = Some t \<Longrightarrow> \<exists>u. user_by_id d (user_id t) = Some u"
proof -
  assume "get_user_by_username d n = Some t"
  then have "t \<in> set (users d)" by (auto simp: get_user_by_username_def find_Some_iff)
  then have "find (\<lambda>u. user_id u = user_id t) (users d) \<noteq> None"
    by (auto simp: find_None_iff)
  then show ?thesis by (auto simp: user_by_id_def)
qed

lemma save_message_fail: "save_message False now d a b k body loc = (Inl OperationalError, d)"
  by (simp add: save_message_def)

lemma save_message_ok:
  assumes "user_by_id d a = Some ua" "user_by_id d b = Some ub"
  shows "\<exists>v. save_message True now d a b k body loc =
           (Inr v, d\<lparr>messages := messages d @ [new_message now d a b k body loc]\<rparr>)"
  using assms by (simp add: save_message_def join_users_def user_by_id_def new_message_def Let_def)

lemma save_message_cases:
  "save_message ok now d a b k body loc = (r, d') \<Longrightarrow>
     (d' = d \<and> stored d d' = [] \<and> r = Inl OperationalError \<and> \<not> ok) \<or>
     (d' = d\<lparr>messages := messages d @ [new_message now d a b k body loc]\<rparr> \<and>
      stored d d' = [Stored (new_message now d a b k body loc)] \<and> ok)"
  by (auto simp: save_message_def stored_def Let_def split: if_splits option.splits)

lemma stored_same: "stored d d = []"
  by (simp add: stored_def)

lemma stored_append: "stored d (d\<lparr>messages := messages d @ [m]\<rparr>) = [Stored m]"
  by (simp add: stored_def)

lemma basename_after_last_slash: "basename p = after_last_slash p"
proof (induction p)
  case Nil
  show ?case by (simp add: basename_def)
next
  case (Cons c cs)
  show ?case
  proof (cases "CHR ''/'' \<in> set cs")
    case True
    then have "takeWhile (\<lambda>c. c \<noteq> CHR ''/'') (rev cs @ [c]) = takeWhile (\<lambda>c. c \<noteq> CHR ''/'') (rev cs)"
      by (intro takeWhile_append1 [where x = "CHR ''/''"]) auto
    with True Cons show ?thesis by (simp add: basename_def)
  next
    case False
    then have "takeWhile (\<lambda>c. c \<noteq> CHR ''/'') (rev cs @ [c]) = rev cs @ takeWhile (\<lambda>c. c \<noteq> CHR ''/'') [c]"
      by (intro takeWhile_append2) auto
    with False show ?thesis by (simp add: basename_def)
  qed
qed

lemma basename_default: "basename ''file.bin'' = ''file.bin''"
  by (simp add: basename_def)

lemma original_name_spec: "original_name filename = spec_filename filename"
  by (cases filename)
     (simp_all add: original_name_def spec_filename_def basename_default Let_def
        basename_after_last_slash rev_take)

lemma original_name_length: "length (original_name filename) \<le> 100"
  by (simp add: original_name_def Let_def)

text \<open>
  C10. When \<^verbatim>\<open>upload_file\<close> returns its notification, the \<^verbatim>\<open>filename\<close> of the
  notification and the body of the message row it stored are both the filename as the
  specification words it, every frame it pushed is that notification, and the
  filename has at most 100 characters.
\<close>

theorem upload_file_filename:
  "upload_file uuid_hex os_error ok now s tok to_username filename = (Inr payload, evs, s') \<Longrightarrow>
     (\<exists>sender locator. payload = FileNote sender (spec_filename filename) locator) \<and>
     (\<exists>m. Stored m \<in> set evs) \<and>
     (\<forall>m. Stored m \<in> set evs \<longrightarrow> kind m = KFile \<and> msg_text m = spec_filename filename) \<and>
     (\<forall>c f. Sent c f \<in> set evs \<longrightarrow> f = payload) \<and>
     length (spec_filename filename) \<le> 100"
proof -
  assume a: "upload_file uuid_hex os_error ok now s tok to_username filename = (Inr payload, evs, s')"
  obtain me where me: "get_current_user (db s) tok = Inr me"
    using a by (cases "get_current_user (db s) tok") (auto simp: upload_file_def)
  obtain target where target: "get_user_by_username (db s) (strip to_username) = Some target"
    using a me by (cases "get_user_by_username (db s) (strip to_username)")
      (auto simp: upload_file_def)
  have fr: "are_friends (db s) (me_id me) (user_id target)"
    using a me target by (auto simp: upload_file_def split: if_splits)
  have os: "os_error = None"
    using a me target fr by (cases os_error) (auto simp: upload_file_def Let_def)
  obtain r d' where
    sv: "save_message ok now (db s) (me_id me) (user_id target) KFile (original_name filename)
          (Some (''/files/'' @ uuid_hex @ ''_'' @ original_name filename)) = (r, d')"
    by (cases "save_message ok now (db s) (me_id me) (user_id target) KFile (original_name filename)
          (Some (''/files/'' @ uuid_hex @ ''_'' @ original_name filename))") auto
  have r: "\<exists>v. r = Inr v"
    using a me target fr os sv by (cases r) (auto simp: upload_file_def Let_def)
  have p: "payload = FileNote (me_username me) (original_name filename)
              (''/files/'' @ uuid_hex @ ''_'' @ original_name filename)"
    using a me target fr os sv r by (auto simp: upload_file_def Let_def)
  have e: "evs = stored (db s) d' @
              (case lookup (active_connections s) (username target) of
                 None \<Rightarrow> [] | Some c \<Rightarrow> [Sent c payload]) @
              (case lookup (active_connections s) (me_username me) of
                 None \<Rightarrow> [] | Some c \<Rightarrow> [Sent c payload])"
    using a me target fr os sv r by (auto simp: upload_file_def Let_def)
  from save_message_cases [OF sv] r
  have st: "stored (db s) d' = [Stored (new_message now (db s) (me_id me) (user_id target) KFile
              (original_name filename)
              (Some (''/files/'' @ uuid_hex @ ''_'' @ original_name filename)))]"
    by auto
  have 1: "\<exists>sender locator. payload = FileNote sender (spec_filename filename) locator"
    using p by (simp add: original_name_spec)
  have 2: "\<exists>m. Stored m \<in> set evs" using e st by auto
  have 3: "\<forall>m. Stored m \<in> set evs \<longrightarrow> kind m = KFile \<and> msg_text m = spec_filename filename"
    using e st by (auto simp: new_message_def original_name_spec split: option.splits)
  have 4: "\<forall>c f. Sent c f \<in> set evs \<longrightarrow> f = payload"
    using e st by (auto split: option.splits)
  have 5: "length (spec_filename filename) \<le> 100"
    using original_name_length [of filename] by (simp add: original_name_spec)
  from 1 2 3 4 5 show ?thesis by blast
qed

text \<open>Alice shares \<^verbatim>\<open>a/b.txt\<close> with bob while both are connected.\<close>

theorem upload_file_filename_witness:
  "upload_file ''u1'' None True 9 srv_online ''ta'' ''bob'' (Some ''a/b.txt'') =
     (Inr file_note, [Stored message_file, Sent 2 file_note, Sent 1 file_note],
      srv_online\<lparr>db := db_accepted\<lparr>messages := [message_file]\<rparr>\<rparr>)
   \<and> spec_filename (Some ''a/b.txt'') = ''b.txt''
   \<and> kind message_file = KFile \<and> msg_text message_file = ''b.txt''"
proof -
  have h: "upload_file ''u1'' None True 9 srv_online ''ta'' ''bob'' (Some ''a/b.txt'') =
     (Inr file_note, [Stored message_file, Sent 2 file_note, Sent 1 file_note],
      srv_online\<lparr>db := db_accepted\<lparr>messages := [message_file]\<rparr>\<rparr>)"
    by (simp add: upload_file_def original_name_def basename_def eval_defs sample_defs server_defs
        file_note_def message_file_def)
  from upload_file_filename [OF h] h show ?thesis
    by (simp add: file_note_def)
qed

section \<open>The relay loop\<close>

text \<open>A sender that \<^verbatim>\<open>get_current_user\<close> resolved from a token is a row of the users
  table, which is what the join of \<^verbatim>\<open>save_message\<close> needs.\<close>

lemma authenticated_user_is_stored:
  "get_current_user d tok = Inr me \<Longrightarrow> \<exists>u. user_by_id d (me_id me) = Some u"
proof -
  assume "get_current_user d tok = Inr me"
  then obtain i u where u: "user_by_id d i = Some u" and me: "me_id me = user_id u"
    by (auto simp: get_current_user_def get_user_by_token_def split: option.splits)
  from u have "user_id u = i" by (auto simp: user_by_id_def find_Some_iff)
  with u me show ?thesis by auto
qed

lemma handle_frame_accepted:
  assumes "dict_get data ''type'' = Some (JStr ''chat'')"
    and "dict_get data ''to'' = Some (JStr to)" and "dict_get data ''text'' = Some (JStr txt)"
    and "strip to \<noteq> []" and "strip txt \<noteq> []"
    and "get_user_by_username (db s) (strip to) = Some target"
    and "are_friends (db s) (me_id me) (user_id target)"
  shows "handle_frame ok now me websocket data s =
     (case lookup (active_connections s) (strip to) of
           None \<Rightarrow>
             let notice = Sent websocket (System (''User '' @ quote @ strip to @ quote @
                            '' is currently offline.''));
                 (r, d') = save_message ok now (db s) (me_id me) (user_id target) KText (strip txt) None
             in ((case r of Inl e \<Rightarrow> Raise e | Inr _ \<Rightarrow> Continue),
                 notice # stored (db s) d', s\<lparr>db := d'\<rparr>)
         | Some target_ws \<Rightarrow>
             let (r, d') = save_message ok now (db s) (me_id me) (user_id target) KText (strip txt) None;
                 msg_payload = Chat (me_username me) (strip txt)
             in (case r of
                   Inl e \<Rightarrow> (Raise e, stored (db s) d', s\<lparr>db := d'\<rparr>)
                 | Inr _ \<Rightarrow>
                     (Continue,
                      stored (db s) d' @ [Sent target_ws msg_payload, Sent websocket msg_payload],
                      s\<lparr>db := d'\<rparr>)))"
proof -
  have "strip to \<noteq> []  \<Longrightarrow> to \<noteq> []" for to by (auto simp: strip_def)
  with assms(4,5) have "to \<noteq> []" "txt \<noteq> []" by auto
  then show ?thesis
    using assms by (simp add: handle_frame_def or_empty_strip_def)
qed

lemma accepted_save:
  assumes "get_user_by_username (db s) name = Some target"
    and "user_by_id (db s) (me_id me) = Some sender"
  shows "\<exists>v. save_message True now (db s) (me_id me) (user_id target) KText body None =
           (Inr v, (db s)\<lparr>messages := messages (db s) @
               [new_message now (db s) (me_id me) (user_id target) KText body None]\<rparr>)"
proof -
  from user_by_id_of_username [OF assms(1)] obtain u where "user_by_id (db s) (user_id target) = Some u"
    by blast
  from save_message_ok [OF assms(2) this] show ?thesis .
qed

lemma frame_hi_accepted:
  "dict_get frame_hi ''type'' = Some (JStr ''chat'')"
  "dict_get frame_hi ''to'' = Some (JStr '' bob'')"
  "dict_get frame_hi ''text'' = Some (JStr ''hi '')"
  "strip '' bob'' = ''bob''" "strip ''hi '' = ''hi''"
  "get_user_by_username db_accepted ''bob'' = Some bob"
  "are_friends db_accepted 1 2"
  "user_by_id db_accepted 1 = Some alice"
  "new_message 9 db_accepted 1 2 KText ''hi'' None = message_hi"
  by (simp_all add: eval_defs sample_defs server_defs)

text \<open>The offline branch, for every accepted frame whose insert succeeds: the notice to
  the sender is the first event of the trace, the stored row the second.\<close>

lemma offline_notice_then_store:
  assumes "dict_get data ''type'' = Some (JStr ''chat'')"
    and "dict_get data ''to'' = Some (JStr to)" and "dict_get data ''text'' = Some (JStr txt)"
    and "strip to \<noteq> []" and "strip txt \<noteq> []"
    and "get_user_by_username (db s) (strip to) = Some target"
    and "are_friends (db s) (me_id me) (user_id target)"
    and "user_by_id (db s) (me_id me) = Some sender"
    and "lookup (active_connections s) (strip to) = None"
  shows "handle_frame True now me websocket data s =
          (Continue,
           [Sent websocket (System (''User '' @ quote @ strip to @ quote @ '' is currently offline.'')),
            Stored (new_message now (db s) (me_id me) (user_id target) KText (strip txt) None)],
           s\<lparr>db := (db s)\<lparr>messages := messages (db s) @
                [new_message now (db s) (me_id me) (user_id target) KText (strip txt) None]\<rparr>\<rparr>)"
proof -
  note hf = handle_frame_accepted [OF assms(1-7)]
  from accepted_save [OF assms(6,8)] obtain v where
    sv: "save_message True now (db s) (me_id me) (user_id target) KText (strip txt) None =
           (Inr v, (db s)\<lparr>messages := messages (db s) @
               [new_message now (db s) (me_id me) (user_id target) KText (strip txt) None]\<rparr>)"
    by blast
  show ?thesis by (simp add: hf sv stored_append assms(9) Let_def)
qed

text \<open>
  C2. Alice writes to her friend bob while he is offline. The pass sends the offline
  notice first and stores the message after it, where the online branch stores the
  message before it sends anything (alice writing to bob while he is on connection 2).
  With an insert that fails, the notice has gone out when the exception leaves the
  loop, and no message row is stored.
\<close>

theorem chat_frame_offline_notice_before_store:
  "handle_frame True 9 me_alice 1 frame_hi srv_offline =
     (Continue,
      [Sent 1 (System (''User '' @ quote @ ''bob'' @ quote @ '' is currently offline.'')),
       Stored message_hi],
      srv_offline\<lparr>db := db_accepted\<lparr>messages := [message_hi]\<rparr>\<rparr>)
   \<and> fst (handle_frame False 9 me_alice 1 frame_hi srv_offline) = Raise OperationalError
   \<and> fst (snd (handle_frame False 9 me_alice 1 frame_hi srv_offline)) =
       [Sent 1 (System (''User '' @ quote @ ''bob'' @ quote @ '' is currently offline.''))]
   \<and> handle_frame True 9 me_alice 1 frame_hi srv_online =
       (Continue,
        [Stored message_hi, Sent 2 (Chat ''alice'' ''hi''), Sent 1 (Chat ''alice'' ''hi'')],
        srv_online\<lparr>db := db_accepted\<lparr>messages := [message_hi]\<rparr>\<rparr>)"
  by (simp add: handle_frame_def eval_defs sample_defs server_defs)

text \<open>
  C7. For a chat frame to an online friend (string fields that do not trim to nothing,
  the recipient a friend, the sender a stored identity, the insert succeeding)
  the pass stores one message, from the sender to the recipient, of kind text and with
  the trimmed text as its body, then sends one chat frame with the sender's name and
  that text to the recipient's registered connection and the same frame to the
  sender's own connection, and nothing else; the registry is unchanged.
\<close>

theorem chat_frame_online_delivery:
  assumes "dict_get data ''type'' = Some (JStr ''chat'')"
    and "dict_get data ''to'' = Some (JStr to)" and "dict_get data ''text'' = Some (JStr txt)"
    and "strip to \<noteq> []" and "strip txt \<noteq> []"
    and "get_user_by_username (db s) (strip to) = Some target"
    and "are_friends (db s) (me_id me) (user_id target)"
    and "user_by_id (db s) (me_id me) = Some sender"
    and "lookup (active_connections s) (strip to) = Some target_ws"
  shows "\<exists>m evs s'. handle_frame True now me websocket data s = (Continue, evs, s')
           \<and> evs = [Stored m, Sent target_ws (Chat (me_username me) (strip txt)),
                    Sent websocket (Chat (me_username me) (strip txt))]
           \<and> messages (db s') = messages (db s) @ [m]
           \<and> active_connections s' = active_connections s
           \<and> msg_from_user_id m = me_id me \<and> msg_to_user_id m = user_id target
           \<and> kind m = KText \<and> msg_text m = strip txt"
proof -
  note hf = handle_frame_accepted [OF assms(1-7)]
  from accepted_save [OF assms(6,8)] obtain v where
    sv: "save_message True now (db s) (me_id me) (user_id target) KText (strip txt) None =
           (Inr v, (db s)\<lparr>messages := messages (db s) @
               [new_message now (db s) (me_id me) (user_id target) KText (strip txt) None]\<rparr>)"
    by blast
  have "handle_frame True now me websocket data s =
          (Continue,
           [Stored (new_message now (db s) (me_id me) (user_id target) KText (strip txt) None),
            Sent target_ws (Chat (me_username me) (strip txt)),
            Sent websocket (Chat (me_username me) (strip txt))],
           s\<lparr>db := (db s)\<lparr>messages := messages (db s) @
                [new_message now (db s) (me_id me) (user_id target) KText (strip txt) None]\<rparr>\<rparr>)"
    by (simp add: hf sv stored_append assms(9) Let_def)
  then show ?thesis by (simp add: new_message_def)
qed

text \<open>Alice writes to bob while he is on connection 2.\<close>

theorem chat_frame_online_delivery_witness:
  "dict_get frame_hi ''type'' = Some (JStr ''chat'')
   \<and> dict_get frame_hi ''to'' = Some (JStr '' bob'')
   \<and> dict_get frame_hi ''text'' = Some (JStr ''hi '')
   \<and> strip '' bob'' = ''bob'' \<and> strip ''hi '' = ''hi''
   \<and> get_user_by_username (db srv_online) ''bob'' = Some bob
   \<and> are_friends (db srv_online) (me_id me_alice) (user_id bob)
   \<and> user_by_id (db srv_online) (me_id me_alice) = Some alice
   \<and> lookup (active_connections srv_online) ''bob'' = Some 2
   \<and> (\<exists>m s'. handle_frame True 9 me_alice 1 frame_hi srv_online =
         (Continue, [Stored m, Sent 2 (Chat ''alice'' ''hi''), Sent 1 (Chat ''alice'' ''hi'')], s')
       \<and> messages (db s') = [m] \<and> msg_text m = ''hi'')"
proof -
  have s: "db srv_online = db_accepted"
    "me_id me_alice = 1" "user_id bob = 2" "me_username me_alice = ''alice''"
    "messages db_accepted = []"
    by (simp_all add: sample_defs server_defs)
  have ne: "strip '' bob'' \<noteq> []" "strip ''hi '' \<noteq> []"
    by (simp_all add: frame_hi_accepted)
  have on: "get_user_by_username (db srv_online) (strip '' bob'') = Some bob"
    "are_friends (db srv_online) (me_id me_alice) (user_id bob)"
    "user_by_id (db srv_online) (me_id me_alice) = Some alice"
    "lookup (active_connections srv_online) (strip '' bob'') = Some 2"
    by (simp_all add: s frame_hi_accepted lookup_def) (simp add: server_defs)
  note a = chat_frame_online_delivery [OF frame_hi_accepted(1-3) ne on, of 9 1]
  show ?thesis using a on by (simp add: s frame_hi_accepted) blast
qed





text \<open>The four rejections of a frame, for fields that are strings, absent or falsy: one
  system notice to the sender, nothing stored, the server as it was, and the loop goes
  on. A truthy field that is not a string ends the pass with the AttributeError.\<close>

lemma handle_frame_rejected:
  assumes "dict_get data ''type'' \<noteq> Some (JStr ''chat'') \<or>
           (or_empty_strip (dict_get data ''to'') = Inr to_username \<and>
            or_empty_strip (dict_get data ''text'') = Inr body \<and>
            (to_username = [] \<or> body = [] \<or>
             get_user_by_username (db s) to_username = None \<or>
             (\<exists>target. get_user_by_username (db s) to_username = Some target \<and>
                \<not> are_friends (db s) (me_id me) (user_id target))))"
  shows "\<exists>notice. handle_frame ok now me websocket data s =
           (Continue, [Sent websocket (System notice)], s)"
  using assms by (auto simp: handle_frame_def)

lemma field_not_string_raises:
  assumes "dict_get data ''type'' = Some (JStr ''chat'')"
    and "or_empty_strip (dict_get data ''to'') = Inl e \<or>
         (or_empty_strip (dict_get data ''to'') = Inr to_username \<and>
          or_empty_strip (dict_get data ''text'') = Inl e)"
  shows "handle_frame ok now me websocket data s = (Raise e, [], s)"
  using assms by (auto simp: handle_frame_def)

text \<open>
  C6. The frame \<^verbatim>\<open>{"type": "chat", "to": "", "text": 5}\<close> has an empty trimmed
  \<^verbatim>\<open>to\<close>, yet the pass sends no system notice: stripping the number raises an
  AttributeError, which leaves the loop. Followed by a valid frame, it ends the
  handler before the second frame is read, with the connection unregistered.
\<close>

theorem chat_frame_non_string_text_raises:
  "handle_frame True 9 me_alice 1 frame_bad srv_offline = (Raise AttributeError, [], srv_offline)
   \<and> chat_ws (Some ''ta'') 1 [(True, 9, frame_bad), (True, 10, frame_hi)] srv_empty =
       ([Sent 1 (System ''Connected as alice'')], srv_empty)"
  by (simp add: handle_frame_def chat_ws_def register_def unregister_def eval_defs sample_defs
      server_defs srv_empty_def)

end
